theory Spec2Isabelle
  imports Complex_Main
begin

section \<open>The dataset generators of minitorch/datasets.py\<close>

text \<open>
  Python integers are modelled as \<^typ>\<open>int\<close> and lists as HOL lists of any length (no
  \<open>MemoryError\<close>). A Python float is an IEEE 754 binary64 number, modelled as the real
  number it stands for, and every float operation rounds its exact result to the nearest
  double. The interpreter is a 64-bit one: a list index or length is between \<open>-2\<^sup>6\<^sup>3\<close> and
  \<open>2\<^sup>6\<^sup>3 - 1\<close>. The process-wide random source is made an explicit state that every
  generator takes and returns. An exception is a value \<open>Inl e\<close> of the result.
\<close>

subsection \<open>Floats\<close>

text \<open>Rounding a real to the nearest integer, a tie to the even one.\<close>

definition round_half_even :: "real \<Rightarrow> int" where
  "round_half_even r =
     (let f = \<lfloor>r\<rfloor>; d = r - of_int f
      in if d < 1 / 2 then f else if 1 / 2 < d then f + 1 else if even f then f else f + 1)"

text \<open>The binary exponent of a double: that of the real, and \<open>-1022\<close> for a subnormal.\<close>

definition double_exponent :: "real \<Rightarrow> int" where
  "double_exponent x = max \<lfloor>log 2 \<bar>x\<bar>\<rfloor> (- 1022)"

text \<open>Rounding a real to the nearest double, a tie to the even significand of 53 bits.
  The infinities are not modelled: the operations of this module on coordinates in
  \<open>[0, 1)\<close> and on the angles of the spiral stay far below the largest double.\<close>

definition round_double :: "real \<Rightarrow> real" where
  "round_double x =
     (if x = 0 then 0
      else let q = power_int 2 (double_exponent x - 52)
           in of_int (round_half_even (x / q)) * q)"

text \<open>A decimal literal of the source denotes the nearest double. The literals \<open>0.5\<close>,
  \<open>10.0\<close> and \<open>20.0\<close> are doubles themselves and are written as they are.\<close>

definition float_literal :: "real \<Rightarrow> real" where
  "float_literal x = round_double x"

definition fadd :: "real \<Rightarrow> real \<Rightarrow> real" where
  "fadd a b = round_double (a + b)"

definition fsub :: "real \<Rightarrow> real \<Rightarrow> real" where
  "fsub a b = round_double (a - b)"

definition fmul :: "real \<Rightarrow> real \<Rightarrow> real" where
  "fmul a b = round_double (a * b)"

definition fdiv :: "real \<Rightarrow> real \<Rightarrow> real" where
  "fdiv a b = round_double (a / b)"

text \<open>\<open>math.cos\<close> and \<open>math.sin\<close> are those of the platform's C library, which fixes no
  rounding for them: the model takes the two functions as a parameter.\<close>

record math =
  m_cos :: "real \<Rightarrow> real"
  m_sin :: "real \<Rightarrow> real"

subsection \<open>Python primitives used by the module\<close>

datatype py_error = ZeroDivisionError | OverflowError | KeyError

text \<open>\<open>range(a, b)\<close>: the integers from \<open>a\<close> up to, not including, \<open>b\<close>; empty when
  \<open>b \<le> a\<close>.\<close>

definition py_range :: "int \<Rightarrow> int \<Rightarrow> int list" where
  "py_range a b = [a .. b - 1]"

text \<open>An integer can be converted to a float when its nearest double is finite, that is
  when it is below \<open>2\<^sup>1\<^sup>0\<^sup>2\<^sup>4 - 2\<^sup>9\<^sup>7\<^sup>0\<close> in absolute value.\<close>

definition fits_double :: "int \<Rightarrow> bool" where
  "fits_double i = (\<bar>i\<bar> < 2 ^ 1024 - 2 ^ 970)"

text \<open>\<open>float(i)\<close>: raises \<open>OverflowError\<close> when the integer is too large.\<close>

definition py_float :: "int \<Rightarrow> py_error + real" where
  "py_float i = (if fits_double i then Inr (round_double (of_int i)) else Inl OverflowError)"

text \<open>\<open>a / b\<close> of a float by an integer: the integer is converted first, which raises
  \<open>OverflowError\<close> when it is too large; a zero divisor raises \<open>ZeroDivisionError\<close>.\<close>

definition py_truediv :: "real \<Rightarrow> int \<Rightarrow> py_error + real" where
  "py_truediv a b =
     (if \<not> fits_double b then Inl OverflowError
      else if b = 0 then Inl ZeroDivisionError
      else Inr (fdiv a (round_double (of_int b))))"

text \<open>A repetition count must fit a list index.\<close>

definition fits_index :: "int \<Rightarrow> bool" where
  "fits_index k = (- (2 ^ 63) \<le> k \<and> k \<le> 2 ^ 63 - 1)"

text \<open>\<open>[v] * k\<close>: raises \<open>OverflowError\<close> when \<open>k\<close> fits no index, and is the empty list
  when \<open>k\<close> is not positive.\<close>

definition py_list_mul :: "'a \<Rightarrow> int \<Rightarrow> py_error + 'a list" where
  "py_list_mul v k = (if fits_index k then Inr (replicate (nat k) v) else Inl OverflowError)"

text \<open>A list comprehension \<open>[f(i) for i in is]\<close> whose element expression may raise: the
  first exception ends the comprehension.\<close>

fun comprehension :: "(int \<Rightarrow> py_error + 'a) \<Rightarrow> int list \<Rightarrow> py_error + 'a list" where
  "comprehension f [] = Inr []"
| "comprehension f (i # is) =
     (case f i of
        Inl e \<Rightarrow> Inl e
      | Inr v \<Rightarrow> (case comprehension f is of Inl e \<Rightarrow> Inl e | Inr vs \<Rightarrow> Inr (v # vs)))"

text \<open>A dictionary subscript \<open>d[k]\<close>: raises \<open>KeyError\<close> on a key that is not bound.\<close>

definition py_getitem :: "('k \<rightharpoonup> 'v) \<Rightarrow> 'k \<Rightarrow> py_error + 'v" where
  "py_getitem d k = (case d k of None \<Rightarrow> Inl KeyError | Some v \<Rightarrow> Inr v)"

subsection \<open>The random source\<close>

text \<open>The state of the random source is the sequence of the values it has still to
  produce; \<open>random.random()\<close> returns the next one and advances.\<close>

type_synonym rng = "nat \<Rightarrow> real"

definition random_random :: "rng \<Rightarrow> real \<times> rng" where
  "random_random g = (g 0, \<lambda>n. g (Suc n))"

text \<open>The documented range of \<open>random.random()\<close>: every value is in \<open>[0, 1)\<close>.\<close>

definition unit_rng :: "rng \<Rightarrow> bool" where
  "unit_rng g = (\<forall>n. 0 \<le> g n \<and> g n < 1)"

subsection \<open>make_pts\<close>

type_synonym point = "real \<times> real"

fun make_pts_loop :: "int list \<Rightarrow> point list \<Rightarrow> rng \<Rightarrow> point list \<times> rng" where
  "make_pts_loop [] X g = (X, g)"
| "make_pts_loop (i # is) X g =
     (let (x_1, g1) = random_random g;
          (x_2, g2) = random_random g1
      in make_pts_loop is (X @ [(x_1, x_2)]) g2)"

definition make_pts :: "int \<Rightarrow> rng \<Rightarrow> point list \<times> rng" where
  "make_pts N g = make_pts_loop (py_range 0 N) [] g"

subsection \<open>Graph\<close>

text \<open>The dataclass \<open>Graph\<close> with its fields \<open>N\<close>, \<open>X\<close> and \<open>y\<close>.\<close>

record Graph =
  graph_N :: int
  graph_X :: "point list"
  graph_y :: "int list"

text \<open>What a generator called with \<open>N\<close> does: it returns a graph or raises, and leaves
  the random source in a new state.\<close>

type_synonym generator = "int \<Rightarrow> rng \<Rightarrow> (py_error + Graph) \<times> rng"

subsection \<open>simple, diag, split, xor, circle\<close>

text \<open>The generator \<open>xor\<close> is named \<open>xor_dataset\<close> here: \<open>xor\<close> is the bitwise
  operation of the library.\<close>

fun simple_loop :: "point list \<Rightarrow> int list \<Rightarrow> int list" where
  "simple_loop [] y = y"
| "simple_loop ((x_1, x_2) # X) y =
     (let y1 = (if x_1 < 0.5 then 1 else 0) in simple_loop X (y @ [y1]))"

definition simple :: generator where
  "simple N g =
     (let (X, g') = make_pts N g;
          y = simple_loop X []
      in (Inr \<lparr>graph_N = N, graph_X = X, graph_y = y\<rparr>, g'))"

fun diag_loop :: "point list \<Rightarrow> int list \<Rightarrow> int list" where
  "diag_loop [] y = y"
| "diag_loop ((x_1, x_2) # X) y =
     (let y1 = (if x_1 < x_2 then 1 else 0) in diag_loop X (y @ [y1]))"

definition diag :: generator where
  "diag N g =
     (let (X, g') = make_pts N g;
          y = diag_loop X []
      in (Inr \<lparr>graph_N = N, graph_X = X, graph_y = y\<rparr>, g'))"

fun split_loop :: "point list \<Rightarrow> int list \<Rightarrow> int list" where
  "split_loop [] y = y"
| "split_loop ((x_1, x_2) # X) y =
     (let y1 = (if x_1 < float_literal 0.2 \<or> x_1 > float_literal 0.8 then 1 else 0)
      in split_loop X (y @ [y1]))"

definition split :: generator where
  "split N g =
     (let (X, g') = make_pts N g;
          y = split_loop X []
      in (Inr \<lparr>graph_N = N, graph_X = X, graph_y = y\<rparr>, g'))"

fun xor_loop :: "point list \<Rightarrow> int list \<Rightarrow> int list" where
  "xor_loop [] y = y"
| "xor_loop ((x_1, x_2) # X) y =
     (let y1 = (if (x_1 < 0.5 \<and> x_2 > 0.5) \<or> (x_1 > 0.5 \<and> x_2 < 0.5) then 1 else 0)
      in xor_loop X (y @ [y1]))"

definition xor_dataset :: generator where
  "xor_dataset N g =
     (let (X, g') = make_pts N g;
          y = xor_loop X []
      in (Inr \<lparr>graph_N = N, graph_X = X, graph_y = y\<rparr>, g'))"

fun circle_loop :: "point list \<Rightarrow> int list \<Rightarrow> int list" where
  "circle_loop [] y = y"
| "circle_loop ((x_1, x_2) # X) y =
     (let (x1, x2) = (fsub x_1 0.5, fsub x_2 0.5);
          y1 = (if fadd (fmul x1 x1) (fmul x2 x2) > float_literal 0.1 then 1 else 0)
      in circle_loop X (y @ [y1]))"

definition circle :: generator where
  "circle N g =
     (let (X, g') = make_pts N g;
          y = circle_loop X []
      in (Inr \<lparr>graph_N = N, graph_X = X, graph_y = y\<rparr>, g'))"

subsection \<open>spiral\<close>

text \<open>The two inner functions \<open>x\<close> and \<open>y\<close> of \<open>spiral\<close>.\<close>

definition spiral_x :: "math \<Rightarrow> real \<Rightarrow> real" where
  "spiral_x M t = fdiv (fmul t (m_cos M t)) 20"

definition spiral_y :: "math \<Rightarrow> real \<Rightarrow> real" where
  "spiral_y M t = fdiv (fmul t (m_sin M t)) 20"

text \<open>The element expressions of the two comprehensions. Each converts \<open>i\<close> and divides
  by \<open>N // 2\<close> twice, left to right.\<close>

definition spiral_arm_a :: "math \<Rightarrow> int \<Rightarrow> int \<Rightarrow> py_error + point" where
  "spiral_arm_a M N i =
     (case py_float i of Inl e \<Rightarrow> Inl e | Inr f1 \<Rightarrow>
      case py_truediv f1 (N div 2) of Inl e \<Rightarrow> Inl e | Inr q1 \<Rightarrow>
      case py_float i of Inl e \<Rightarrow> Inl e | Inr f2 \<Rightarrow>
      case py_truediv f2 (N div 2) of Inl e \<Rightarrow> Inl e | Inr q2 \<Rightarrow>
        Inr (fadd (spiral_x M (fmul 10 q1)) 0.5, fadd (spiral_y M (fmul 10 q2)) 0.5))"

definition spiral_arm_b :: "math \<Rightarrow> int \<Rightarrow> int \<Rightarrow> py_error + point" where
  "spiral_arm_b M N i =
     (case py_float i of Inl e \<Rightarrow> Inl e | Inr f1 \<Rightarrow>
      case py_truediv f1 (N div 2) of Inl e \<Rightarrow> Inl e | Inr q1 \<Rightarrow>
      case py_float i of Inl e \<Rightarrow> Inl e | Inr f2 \<Rightarrow>
      case py_truediv f2 (N div 2) of Inl e \<Rightarrow> Inl e | Inr q2 \<Rightarrow>
        Inr (fadd (spiral_y M (fmul (- 10) q1)) 0.5, fadd (spiral_x M (fmul (- 10) q2)) 0.5))"

definition spiral :: "math \<Rightarrow> generator" where
  "spiral M N g =
     (case comprehension (spiral_arm_a M N) (py_range (5 + 0) (5 + N div 2)) of
        Inl e \<Rightarrow> (Inl e, g)
      | Inr X1 \<Rightarrow>
     (case comprehension (spiral_arm_b M N) (py_range (5 + 0) (5 + N div 2)) of
        Inl e \<Rightarrow> (Inl e, g)
      | Inr X2 \<Rightarrow>
     (let X = X1 @ X2
      in case py_list_mul 0 (N div 2) of
           Inl e \<Rightarrow> (Inl e, g)
         | Inr zeros \<Rightarrow>
        (case py_list_mul 1 (N div 2) of
           Inl e \<Rightarrow> (Inl e, g)
         | Inr ones \<Rightarrow>
        (let y2 = zeros @ ones
         in (Inr \<lparr>graph_N = N, graph_X = X, graph_y = y2\<rparr>, g))))))"

subsection \<open>The registry\<close>

definition datasets :: "math \<Rightarrow> string \<rightharpoonup> generator" where
  "datasets M =
     [''Simple'' \<mapsto> simple,
      ''Diag'' \<mapsto> diag,
      ''Split'' \<mapsto> split,
      ''Xor'' \<mapsto> xor_dataset,
      ''Circle'' \<mapsto> circle,
      ''Spiral'' \<mapsto> spiral M]"

subsection \<open>Statements about a generator's result\<close>

text \<open>\<open>returns r P\<close>: the call returned normally, with a graph that satisfies \<open>P\<close>.
  \<open>returned r P\<close>: if the call returned a graph, the graph satisfies \<open>P\<close>.\<close>

definition returns :: "(py_error + Graph) \<times> rng \<Rightarrow> (Graph \<Rightarrow> bool) \<Rightarrow> bool" where
  "returns r P = (case fst r of Inl e \<Rightarrow> False | Inr G \<Rightarrow> P G)"

definition returned :: "(py_error + Graph) \<times> rng \<Rightarrow> (Graph \<Rightarrow> bool) \<Rightarrow> bool" where
  "returned r P = (case fst r of Inl e \<Rightarrow> True | Inr G \<Rightarrow> P G)"

definition in_unit_square :: "point \<Rightarrow> bool" where
  "in_unit_square p = (0 \<le> fst p \<and> fst p < 1 \<and> 0 \<le> snd p \<and> snd p < 1)"

text \<open>Exactly \<open>N\<close> points and \<open>N\<close> labels, every label 0 or 1, every point in the unit
  square.\<close>

definition unit_dataset :: "int \<Rightarrow> Graph \<Rightarrow> bool" where
  "unit_dataset N G =
     (int (length (graph_X G)) = N \<and> int (length (graph_y G)) = N \<and>
      (\<forall>l \<in> set (graph_y G). l = 0 \<or> l = 1) \<and>
      (\<forall>p \<in> set (graph_X G). in_unit_square p))"

subsection \<open>The labeling rules as the specification's table gives them\<close>

text \<open>The predicates of the table, over the real numbers.\<close>

definition spec_simple :: "point \<Rightarrow> bool" where
  "spec_simple p = (case p of (x1, x2) \<Rightarrow> x1 < 0.5)"

definition spec_diag :: "point \<Rightarrow> bool" where
  "spec_diag p = (case p of (x1, x2) \<Rightarrow> x1 < x2)"

definition spec_split :: "point \<Rightarrow> bool" where
  "spec_split p = (case p of (x1, x2) \<Rightarrow> x1 < 0.2 \<or> x1 > 0.8)"

definition spec_xor :: "point \<Rightarrow> bool" where
  "spec_xor p = (case p of (x1, x2) \<Rightarrow> (x1 < 0.5 \<and> x2 > 0.5) \<or> (x1 > 0.5 \<and> x2 < 0.5))"

definition spec_circle :: "point \<Rightarrow> bool" where
  "spec_circle p = (case p of (x1, x2) \<Rightarrow> (x1 - 0.5)\<^sup>2 + (x2 - 0.5)\<^sup>2 > 0.1)"

text \<open>The predicates of split and circle in double arithmetic: \<open>0.2\<close>, \<open>0.8\<close> and \<open>0.1\<close>
  are the nearest doubles, each square is a product, and each difference, product and
  sum is rounded.\<close>

definition double_split :: "point \<Rightarrow> bool" where
  "double_split p = (case p of (x1, x2) \<Rightarrow> x1 < float_literal 0.2 \<or> x1 > float_literal 0.8)"

definition double_circle_sum :: "point \<Rightarrow> real" where
  "double_circle_sum p =
     (case p of (x1, x2) \<Rightarrow>
        fadd (fmul (fsub x1 0.5) (fsub x1 0.5)) (fmul (fsub x2 0.5) (fsub x2 0.5)))"

definition double_circle :: "point \<Rightarrow> bool" where
  "double_circle p = (double_circle_sum p > float_literal 0.1)"

text \<open>The label a predicate gives a point, and the labels it gives a list of points.\<close>

definition spec_label :: "(point \<Rightarrow> bool) \<Rightarrow> point \<Rightarrow> int" where
  "spec_label pred p = (if pred p then 1 else 0)"

definition rerun :: "(point \<Rightarrow> bool) \<Rightarrow> point list \<Rightarrow> int list" where
  "rerun pred X = map (spec_label pred) X"

text \<open>The labels of \<open>G\<close> are, index by index, those the predicate gives its points.\<close>

definition labelled_by :: "(point \<Rightarrow> bool) \<Rightarrow> Graph \<Rightarrow> bool" where
  "labelled_by pred G =
     (length (graph_y G) = length (graph_X G) \<and>
      (\<forall>i < length (graph_X G). (graph_y G ! i = 1 \<longleftrightarrow> pred (graph_X G ! i)) \<and>
                                 (graph_y G ! i = 0 \<longleftrightarrow> \<not> pred (graph_X G ! i))) \<and>
      rerun pred (graph_X G) = graph_y G)"

text \<open>Every point of \<open>G\<close> that lies on the boundary has label 0.\<close>

definition boundary_zero :: "(point \<Rightarrow> bool) \<Rightarrow> Graph \<Rightarrow> bool" where
  "boundary_zero on_boundary G =
     (\<forall>i < length (graph_X G). on_boundary (graph_X G ! i) \<longrightarrow> graph_y G ! i = 0)"

subsection \<open>The spiral as the specification constructs it, in double arithmetic\<close>

text \<open>\<open>sx(t) = t cos(t) / 20\<close> and \<open>sy(t) = t sin(t) / 20\<close>, the angle \<open>10 (i / half)\<close> and the
  shift by \<open>0.5\<close>, each operation rounded, in the order the source evaluates them.\<close>

definition double_sx :: "math \<Rightarrow> real \<Rightarrow> real" where
  "double_sx M t = fdiv (fmul t (m_cos M t)) 20"

definition double_sy :: "math \<Rightarrow> real \<Rightarrow> real" where
  "double_sy M t = fdiv (fmul t (m_sin M t)) 20"

definition double_angle :: "int \<Rightarrow> int \<Rightarrow> real" where
  "double_angle half i = fdiv (round_double (of_int i)) (round_double (of_int half))"

definition double_point_A :: "math \<Rightarrow> int \<Rightarrow> int \<Rightarrow> point" where
  "double_point_A M half i =
     (fadd (double_sx M (fmul 10 (double_angle half i))) 0.5,
      fadd (double_sy M (fmul 10 (double_angle half i))) 0.5)"

definition double_point_B :: "math \<Rightarrow> int \<Rightarrow> int \<Rightarrow> point" where
  "double_point_B M half i =
     (fadd (double_sy M (fmul (- 10) (double_angle half i))) 0.5,
      fadd (double_sx M (fmul (- 10) (double_angle half i))) 0.5)"

definition double_arm_A :: "math \<Rightarrow> int \<Rightarrow> point list" where
  "double_arm_A M half = map (double_point_A M half) [5 .. 5 + half - 1]"

definition double_arm_B :: "math \<Rightarrow> int \<Rightarrow> point list" where
  "double_arm_B M half = map (double_point_B M half) [5 .. 5 + half - 1]"

definition double_spiral :: "math \<Rightarrow> int \<Rightarrow> Graph" where
  "double_spiral M N =
     (let half = N div 2
      in \<lparr>graph_N = N,
          graph_X = double_arm_A M half @ double_arm_B M half,
          graph_y = replicate (nat half) 0 @ replicate (nat half) 1\<rparr>)"

text \<open>The shape of the graph of the spiral: \<open>2 * half\<close> points, arm A then arm B, point by
  point for \<open>i = 5 + k\<close>, and \<open>half\<close> zeros then \<open>half\<close> ones.\<close>

definition spiral_shape :: "math \<Rightarrow> int \<Rightarrow> Graph \<Rightarrow> bool" where
  "spiral_shape M N G =
     (let half = N div 2
      in G = double_spiral M N \<and>
         int (length (graph_X G)) = 2 * half \<and>
         int (length (graph_y G)) = 2 * half \<and>
         take (nat half) (graph_X G) = double_arm_A M half \<and>
         drop (nat half) (graph_X G) = double_arm_B M half \<and>
         length (double_arm_A M half) = nat half \<and>
         length (double_arm_B M half) = nat half \<and>
         graph_y G = replicate (nat half) 0 @ replicate (nat half) 1 \<and>
         (\<forall>k < nat half.
            graph_X G ! k = double_point_A M half (5 + int k) \<and>
            graph_X G ! (nat half + k) = double_point_B M half (5 + int k) \<and>
            graph_y G ! k = 0 \<and> graph_y G ! (nat half + k) = 1))"

subsection \<open>The size of a dataset against its count field\<close>

definition lengths_agree :: "Graph \<Rightarrow> bool" where
  "lengths_agree G = (length (graph_X G) = length (graph_y G))"

definition count_is_size :: "Graph \<Rightarrow> bool" where
  "count_is_size G =
     (length (graph_X G) = length (graph_y G) \<and> int (length (graph_X G)) = graph_N G)"

definition spiral_size :: "int \<Rightarrow> Graph \<Rightarrow> bool" where
  "spiral_size N G =
     (length (graph_X G) = length (graph_y G) \<and> graph_N G = N \<and>
      int (length (graph_X G)) = 2 * (N div 2))"

definition empty_graph :: "int \<Rightarrow> Graph" where
  "empty_graph N = \<lparr>graph_N = N, graph_X = [], graph_y = []\<rparr>"

subsection \<open>Concrete inputs\<close>

text \<open>A random source with the values 0.3, 0, 0.7, 0.4, 0.1, 0.8, ...\<close>

definition sample_rng :: rng where
  "sample_rng n = real ((7 * n + 3) mod 10) / 10"

text \<open>A random source of doubles whose first four points are \<open>(0.5, 0.5)\<close>, the doubles
  \<open>0.2\<close> and \<open>0.8\<close> with second coordinates \<open>0.75\<close> and \<open>0.25\<close>, and a point at which the
  sum of squares that \<open>circle\<close> computes is the double \<open>0.1\<close>.\<close>

definition boundary_rng :: rng where
  "boundary_rng n =
     (if n < 8
      then [1 / 2, 1 / 2,
            3602879701896397 / 2 ^ 54, 3 / 4,
            7205759403792794 / 2 ^ 53, 1 / 4,
            1792424227437135 / 2 ^ 53, 3630391867294551 / 2 ^ 53] ! n
      else 0)"

text \<open>A cosine and a sine that round the exact value.\<close>

definition rounded_math :: math where
  "rounded_math = \<lparr>m_cos = \<lambda>t. round_double (cos t), m_sin = \<lambda>t. round_double (sin t)\<rparr>"

section \<open>Lemmas on floats\<close>

lemma double_exponent_eq:
  assumes "power_int 2 e \<le> \<bar>x\<bar>" and "\<bar>x\<bar> < power_int 2 (e + 1)" and "- 1022 \<le> e"
  shows "double_exponent x = e"
proof -
  have pw: "(2::real) powr real_of_int k = power_int 2 k" for k
    by (rule powr_real_of_int') simp_all
  have pos: "0 < \<bar>x\<bar>"
    using assms(1) by (smt (verit) zero_less_power_int)
  have lo: "2 powr real_of_int e \<le> \<bar>x\<bar>"
    using assms(1) by (simp only: pw)
  have "\<bar>x\<bar> < 2 powr real_of_int (e + 1)"
    using assms(2) by (simp only: pw)
  then have hi: "\<bar>x\<bar> < 2 powr (real_of_int e + 1)"
    by simp
  have "\<lfloor>log 2 \<bar>x\<bar>\<rfloor> = e"
    using lo hi pos by (simp add: floor_log_eq_powr_iff)
  then show ?thesis
    using assms(3) by (simp add: double_exponent_def)
qed

lemma round_double_eval:
  assumes "power_int 2 e \<le> \<bar>x\<bar>" and "\<bar>x\<bar> < power_int 2 (e + 1)" and "- 1022 \<le> e"
  shows "round_double x =
         of_int (round_half_even (x / power_int 2 (e - 52))) * power_int 2 (e - 52)"
proof -
  have "x \<noteq> 0"
    using assms(1) by (smt (verit) zero_less_power_int)
  then show ?thesis
    by (simp add: round_double_def Let_def double_exponent_eq [OF assms])
qed

lemma float_literal_0_8: "float_literal 0.8 = 7205759403792794 / 2 ^ 53"
  unfolding float_literal_def
  by (subst round_double_eval [where e = "- 1"])
     (simp_all add: round_half_even_def power_int_minus_divide)

lemma float_literal_0_2: "float_literal 0.2 = 3602879701896397 / 2 ^ 54"
  unfolding float_literal_def
  by (subst round_double_eval [where e = "- 3"])
     (simp_all add: round_half_even_def power_int_minus_divide)

lemma float_literal_0_1: "float_literal 0.1 = 3602879701896397 / 2 ^ 55"
  unfolding float_literal_def
  by (subst round_double_eval [where e = "- 4"])
     (simp_all add: round_half_even_def power_int_minus_divide)

lemma float_literal_fifth: "float_literal (1 / 5) = 3602879701896397 / 2 ^ 54"
  using float_literal_0_2 by simp

lemma float_literal_four_fifths: "float_literal (4 / 5) = 7205759403792794 / 2 ^ 53"
  using float_literal_0_8 by simp

lemma float_literal_tenth: "float_literal (1 / 10) = 3602879701896397 / 2 ^ 55"
  using float_literal_0_1 by simp

text \<open>The doubles that \<open>circle\<close> computes at the fourth point of \<open>boundary_rng\<close>.\<close>

lemma circle_point_x: "fsub (1792424227437135 / 2 ^ 53) 0.5 = - 2711175399933361 / 2 ^ 53"
  unfolding fsub_def
  by (subst round_double_eval [where e = "- 2"])
     (simp_all add: round_half_even_def power_int_minus_divide)

lemma circle_point_y: "fsub (3630391867294551 / 2 ^ 53) 0.5 = - 873207760075945 / 2 ^ 53"
  unfolding fsub_def
  by (subst round_double_eval [where e = "- 4"])
     (simp_all add: round_half_even_def power_int_minus_divide)

lemma circle_point_xx:
  "fmul (- 2711175399933361 / 2 ^ 53) (- 2711175399933361 / 2 ^ 53) =
   3264265324355895 / 2 ^ 55"
  unfolding fmul_def
  by (subst round_double_eval [where e = "- 4"])
     (simp_all add: round_half_even_def power_int_minus_divide)

lemma circle_point_yy:
  "fmul (- 873207760075945 / 2 ^ 53) (- 873207760075945 / 2 ^ 53) =
   1354457510162009 / 2 ^ 57"
  unfolding fmul_def
  by (subst round_double_eval [where e = "- 7"])
     (simp_all add: round_half_even_def power_int_minus_divide)

lemma circle_point_sum:
  "fadd (3264265324355895 / 2 ^ 55) (1354457510162009 / 2 ^ 57) = 3602879701896397 / 2 ^ 55"
  unfolding fadd_def
  by (subst round_double_eval [where e = "- 4"])
     (simp_all add: round_half_even_def power_int_minus_divide)

lemma double_circle_sum_point:
  "double_circle_sum (1792424227437135 / 2 ^ 53, 3630391867294551 / 2 ^ 53) =
   float_literal 0.1"
  by (simp only: double_circle_sum_def prod.case circle_point_x circle_point_y
        circle_point_xx circle_point_yy circle_point_sum float_literal_0_1)

text \<open>The angle of the spiral at \<open>N = 6\<close>, \<open>i = 7\<close>.\<close>

lemma round_double_7: "round_double 7 = 7"
  by (subst round_double_eval [where e = 2])
     (simp_all add: round_half_even_def power_int_minus_divide)

lemma round_double_3: "round_double 3 = 3"
  by (subst round_double_eval [where e = 1])
     (simp_all add: round_half_even_def power_int_minus_divide)

lemma fdiv_7_3: "fdiv 7 3 = 5254199565265579 / 2 ^ 51"
  unfolding fdiv_def
  by (subst round_double_eval [where e = 1])
     (simp_all add: round_half_even_def power_int_minus_divide)

lemma fmul_10_angle: "fmul 10 (5254199565265579 / 2 ^ 51) = 3283874728290987 / 2 ^ 47"
  unfolding fmul_def
  by (subst round_double_eval [where e = 4])
     (simp_all add: round_half_even_def power_int_minus_divide)

text \<open>The rule of \<open>circle\<close> at the doubles \<open>(0.8, 0.6)\<close>, where the sum it computes is
  \<open>0.10000000000000002\<close>, and at the doubles \<open>(0.24, 0.32)\<close>, where the sum it computes
  is the double \<open>0.1\<close> and the sum over the reals is larger.\<close>

lemma circle_p86_x: "fsub (3602879701896397 / 2 ^ 52) (0.5) = 1351079888211149 / 2 ^ 52"
  unfolding fsub_def
  by (subst round_double_eval [where e = "- 2"])
     (simp_all add: round_half_even_def power_int_minus_divide)

lemma circle_p86_y: "fsub (5404319552844595 / 2 ^ 53) (0.5) = 900719925474099 / 2 ^ 53"
  unfolding fsub_def
  by (subst round_double_eval [where e = "- 4"])
     (simp_all add: round_half_even_def power_int_minus_divide)

lemma circle_p86_xx: "fmul (1351079888211149 / 2 ^ 52) (1351079888211149 / 2 ^ 52) = 1621295865853379 / 2 ^ 54"
  unfolding fmul_def
  by (subst round_double_eval [where e = "- 4"])
     (simp_all add: round_half_even_def power_int_minus_divide)

lemma circle_p86_yy: "fmul (900719925474099 / 2 ^ 53) (900719925474099 / 2 ^ 53) = 720575940379279 / 2 ^ 56"
  unfolding fmul_def
  by (subst round_double_eval [where e = "- 7"])
     (simp_all add: round_half_even_def power_int_minus_divide)

lemma circle_p86_sum: "fadd (1621295865853379 / 2 ^ 54) (720575940379279 / 2 ^ 56) = 7205759403792795 / 2 ^ 56"
  unfolding fadd_def
  by (subst round_double_eval [where e = "- 4"])
     (simp_all add: round_half_even_def power_int_minus_divide)

lemma double_circle_sum_p86:
  "double_circle_sum (3602879701896397 / 2 ^ 52, 5404319552844595 / 2 ^ 53) = 7205759403792795 / 2 ^ 56"
  by (simp only: double_circle_sum_def prod.case circle_p86_x circle_p86_y
        circle_p86_xx circle_p86_yy circle_p86_sum)

lemma circle_p23_x: "fsub (1080863910568919 / 2 ^ 52) (0.5) = - 1170935903116329 / 2 ^ 52"
  unfolding fsub_def
  by (subst round_double_eval [where e = "- 2"])
     (simp_all add: round_half_even_def power_int_minus_divide)

lemma circle_p23_y: "fsub (5764607523034235 / 2 ^ 54) (0.5) = - 3242591731706757 / 2 ^ 54"
  unfolding fsub_def
  by (subst round_double_eval [where e = "- 3"])
     (simp_all add: round_half_even_def power_int_minus_divide)

lemma circle_p23_xx: "fmul (- 1170935903116329 / 2 ^ 52) (- 1170935903116329 / 2 ^ 52) = 4871093356963929 / 2 ^ 56"
  unfolding fmul_def
  by (subst round_double_eval [where e = "- 4"])
     (simp_all add: round_half_even_def power_int_minus_divide)

lemma circle_p23_yy: "fmul (- 3242591731706757 / 2 ^ 54) (- 3242591731706757 / 2 ^ 54) = 2334666046828865 / 2 ^ 56"
  unfolding fmul_def
  by (subst round_double_eval [where e = "- 5"])
     (simp_all add: round_half_even_def power_int_minus_divide)

lemma circle_p23_sum: "fadd (4871093356963929 / 2 ^ 56) (2334666046828865 / 2 ^ 56) = 3602879701896397 / 2 ^ 55"
  unfolding fadd_def
  by (subst round_double_eval [where e = "- 4"])
     (simp_all add: round_half_even_def power_int_minus_divide)

lemma double_circle_sum_p23:
  "double_circle_sum (1080863910568919 / 2 ^ 52, 5764607523034235 / 2 ^ 54) = 3602879701896397 / 2 ^ 55"
  by (simp only: double_circle_sum_def prod.case circle_p23_x circle_p23_y
        circle_p23_xx circle_p23_yy circle_p23_sum)

lemma double_circle_p86:
  "double_circle (3602879701896397 / 2 ^ 52, 5404319552844595 / 2 ^ 53)"
  by (simp only: double_circle_def double_circle_sum_p86 float_literal_0_1) simp

lemma double_circle_p23:
  "\<not> double_circle (1080863910568919 / 2 ^ 52, 5764607523034235 / 2 ^ 54) \<and>
   spec_circle (1080863910568919 / 2 ^ 52, 5764607523034235 / 2 ^ 54)"
  by (simp only: double_circle_def double_circle_sum_p23 float_literal_0_1)
     (simp add: spec_circle_def power2_eq_square)

text \<open>A double is an integer over a power of two, so no double is the real \<open>0.2\<close> or
  \<open>0.8\<close>, and no point with double coordinates lies on the real circle
  \<open>(x1 - 0.5)\<^sup>2 + (x2 - 0.5)\<^sup>2 = 0.1\<close>.\<close>

lemma five_not_dvd_power2: "\<not> (5::int) dvd 2 ^ n"
proof
  assume "(5::int) dvd 2 ^ n"
  moreover have "coprime (5::int) (2 ^ n)"
    by simp
  ultimately have "is_unit (5::int)"
    by (rule coprime_common_divisor [OF _ dvd_refl, rotated]) 
  then show False by simp
qed

lemma double_not_on_split_boundary:
  "real_of_int k / 2 ^ n \<noteq> 1 / 5 \<and> real_of_int k / 2 ^ n \<noteq> 4 / 5"
proof -
  have "5 * m \<noteq> c * 2 ^ n" if "c = 1 \<or> c = 4" for m c :: int
  proof
    assume eq: "5 * m = c * 2 ^ n"
    have "c * 2 ^ n = 2 ^ n \<or> c * 2 ^ n = 2 ^ (n + 2)"
      using that by auto
    then have "(5::int) dvd 2 ^ n \<or> (5::int) dvd 2 ^ (n + 2)"
      using eq by (metis dvd_triv_left)
    then show False
      using five_not_dvd_power2 by blast
  qed
  from this [of 1 k] this [of 4 k]
  have "5 * k \<noteq> 2 ^ n" and "5 * k \<noteq> 4 * 2 ^ n"
    by simp_all
  then have "real_of_int (5 * k) \<noteq> real_of_int (2 ^ n)"
    and "real_of_int (5 * k) \<noteq> real_of_int (4 * 2 ^ n)"
    by (simp_all only: of_int_eq_iff simp_thms)
  then show ?thesis
    by (simp add: field_simps)
qed

lemma double_not_on_circle:
  "(real_of_int k1 / 2 ^ n - 0.5)\<^sup>2 + (real_of_int k2 / 2 ^ n - 0.5)\<^sup>2 \<noteq> 0.1"
proof
  assume eq: "(real_of_int k1 / 2 ^ n - 0.5)\<^sup>2 + (real_of_int k2 / 2 ^ n - 0.5)\<^sup>2 = 0.1"
  define a where "a = 2 * k1 - 2 ^ n"
  define b where "b = 2 * k2 - 2 ^ n"
  have a: "real_of_int k1 / 2 ^ n - 0.5 = real_of_int a / 2 ^ (n + 1)"
    by (simp add: a_def field_simps)
  have b: "real_of_int k2 / 2 ^ n - 0.5 = real_of_int b / 2 ^ (n + 1)"
    by (simp add: b_def field_simps)
  have "(real_of_int a / 2 ^ (n + 1))\<^sup>2 + (real_of_int b / 2 ^ (n + 1))\<^sup>2 = 1 / 10"
    using eq by (simp only: a b)
  then have "real_of_int (a\<^sup>2 + b\<^sup>2) / (2 ^ (n + 1))\<^sup>2 = 1 / 10"
    by (simp add: power_divide add_divide_distrib)
  then have "real_of_int (10 * (a\<^sup>2 + b\<^sup>2)) = real_of_int ((2 ^ (n + 1))\<^sup>2)"
    by (simp add: field_simps)
  then have "10 * (a\<^sup>2 + b\<^sup>2) = (2 ^ (n + 1))\<^sup>2"
    by (simp only: of_int_eq_iff)
  then have "5 * (2 * (a\<^sup>2 + b\<^sup>2)) = (2::int) ^ (2 * (n + 1))"
    by (simp add: power_mult [symmetric] mult.commute)
  then have "(5::int) dvd 2 ^ (2 * (n + 1))"
    by (metis dvd_triv_left)
  then show False
    using five_not_dvd_power2 by blast
qed

section \<open>Lemmas on the loops and the generators\<close>

lemma length_py_range: "length (py_range a b) = nat (b - a)"
  by (simp add: py_range_def)

lemma py_range_empty: "b \<le> a \<Longrightarrow> py_range a b = []"
  by (simp add: py_range_def)

lemma make_pts_loop_length:
  "length (fst (make_pts_loop is X g)) = length X + length is"
  by (induction "is" arbitrary: X g) (simp_all add: random_random_def)

lemma make_pts_length: "length (fst (make_pts N g)) = nat N"
  by (simp add: make_pts_def make_pts_loop_length length_py_range)

lemma make_pts_loop_unit:
  "unit_rng g \<Longrightarrow> \<forall>p \<in> set X. in_unit_square p \<Longrightarrow>
   \<forall>p \<in> set (fst (make_pts_loop is X g)). in_unit_square p"
proof (induction "is" arbitrary: X g)
  case Nil
  then show ?case by simp
next
  case (Cons i "is")
  let ?g2 = "\<lambda>n. g (Suc (Suc n))"
  let ?X2 = "X @ [(g 0, g (Suc 0))]"
  have g2: "unit_rng ?g2"
    using Cons.prems(1) by (simp add: unit_rng_def)
  have pt: "in_unit_square (g 0, g (Suc 0))"
    using Cons.prems(1) by (simp add: unit_rng_def in_unit_square_def)
  have X2: "\<forall>p \<in> set ?X2. in_unit_square p"
    using Cons.prems(2) pt by simp
  show ?case
    using Cons.IH [OF g2 X2] by (simp add: random_random_def)
qed

lemma make_pts_unit:
  "unit_rng g \<Longrightarrow> \<forall>p \<in> set (fst (make_pts N g)). in_unit_square p"
  unfolding make_pts_def by (rule make_pts_loop_unit) simp_all

lemma make_pts_nonpos: "N \<le> 0 \<Longrightarrow> make_pts N g = ([], g)"
  by (simp add: make_pts_def py_range_empty)

lemma simple_loop_rerun: "simple_loop X y = y @ rerun spec_simple X"
  by (induction X y rule: simple_loop.induct)
     (simp_all add: rerun_def spec_label_def spec_simple_def)

lemma diag_loop_rerun: "diag_loop X y = y @ rerun spec_diag X"
  by (induction X y rule: diag_loop.induct)
     (simp_all add: rerun_def spec_label_def spec_diag_def)

lemma split_loop_rerun: "split_loop X y = y @ rerun double_split X"
  by (induction X y rule: split_loop.induct)
     (simp_all add: rerun_def spec_label_def double_split_def)

lemma xor_loop_rerun: "xor_loop X y = y @ rerun spec_xor X"
  by (induction X y rule: xor_loop.induct)
     (simp_all add: rerun_def spec_label_def spec_xor_def)

lemma circle_loop_rerun: "circle_loop X y = y @ rerun double_circle X"
  by (induction X y rule: circle_loop.induct)
     (simp_all add: rerun_def spec_label_def double_circle_def double_circle_sum_def)

lemma length_rerun: "length (rerun pred X) = length X"
  by (simp add: rerun_def)

lemma rerun_binary: "l \<in> set (rerun pred X) \<Longrightarrow> l = 0 \<or> l = 1"
  by (auto simp: rerun_def spec_label_def)

lemma nth_rerun: "i < length X \<Longrightarrow> rerun pred X ! i = spec_label pred (X ! i)"
  by (simp add: rerun_def)

lemma rerun_Nil: "rerun pred [] = []"
  by (simp add: rerun_def)

lemma simple_eq:
  "simple N g =
     (Inr \<lparr>graph_N = N, graph_X = fst (make_pts N g),
           graph_y = rerun spec_simple (fst (make_pts N g))\<rparr>, snd (make_pts N g))"
  by (simp add: simple_def simple_loop_rerun case_prod_beta)

lemma diag_eq:
  "diag N g =
     (Inr \<lparr>graph_N = N, graph_X = fst (make_pts N g),
           graph_y = rerun spec_diag (fst (make_pts N g))\<rparr>, snd (make_pts N g))"
  by (simp add: diag_def diag_loop_rerun case_prod_beta)

lemma split_eq:
  "split N g =
     (Inr \<lparr>graph_N = N, graph_X = fst (make_pts N g),
           graph_y = rerun double_split (fst (make_pts N g))\<rparr>, snd (make_pts N g))"
  by (simp add: split_def split_loop_rerun case_prod_beta)

lemma xor_eq:
  "xor_dataset N g =
     (Inr \<lparr>graph_N = N, graph_X = fst (make_pts N g),
           graph_y = rerun spec_xor (fst (make_pts N g))\<rparr>, snd (make_pts N g))"
  by (simp add: xor_dataset_def xor_loop_rerun case_prod_beta)

lemma circle_eq:
  "circle N g =
     (Inr \<lparr>graph_N = N, graph_X = fst (make_pts N g),
           graph_y = rerun double_circle (fst (make_pts N g))\<rparr>, snd (make_pts N g))"
  by (simp add: circle_def circle_loop_rerun case_prod_beta)

lemma returns_Inr: "returns (Inr G, g) P = P G"
  by (simp add: returns_def)

lemma returns_Inl: "returns (Inl e, g) P = False"
  by (simp add: returns_def)

lemma returned_Inr: "returned (Inr G, g) P = P G"
  by (simp add: returned_def)

lemma returned_Inl: "returned (Inl e, g) P = True"
  by (simp add: returned_def)

lemma unit_dataset_rerun:
  assumes "0 \<le> N" and "unit_rng g"
  shows "unit_dataset N \<lparr>graph_N = N, graph_X = fst (make_pts N g),
                          graph_y = rerun pred (fst (make_pts N g))\<rparr>"
  using assms make_pts_unit [OF assms(2), of N]
  by (auto simp: unit_dataset_def make_pts_length length_rerun dest: rerun_binary)

lemma labelled_by_rerun:
  "labelled_by pred \<lparr>graph_N = n, graph_X = X, graph_y = rerun pred X\<rparr>"
  by (simp add: labelled_by_def length_rerun nth_rerun spec_label_def)

lemma boundary_zero_rerun:
  assumes "\<And>p. b p \<Longrightarrow> \<not> pred p"
  shows "boundary_zero b \<lparr>graph_N = n, graph_X = X, graph_y = rerun pred X\<rparr>"
  using assms by (simp add: boundary_zero_def nth_rerun spec_label_def)

lemma sample_rng_unit: "unit_rng sample_rng"
  by (simp add: unit_rng_def sample_rng_def)

lemma make_pts_sample: "fst (make_pts 3 sample_rng) = [(0.3, 0), (0.7, 0.4), (0.1, 0.8)]"
  by (simp add: make_pts_def py_range_def random_random_def sample_rng_def upto.simps)

lemma make_pts_boundary:
  "fst (make_pts 4 boundary_rng) =
     [(1 / 2, 1 / 2),
      (3602879701896397 / 2 ^ 54, 3 / 4),
      (7205759403792794 / 2 ^ 53, 1 / 4),
      (1792424227437135 / 2 ^ 53, 3630391867294551 / 2 ^ 53)]"
  by (simp add: make_pts_def py_range_def random_random_def boundary_rng_def upto.simps)

section \<open>Lemmas on the spiral\<close>

lemma fits_double_index: "fits_index k \<Longrightarrow> fits_double k"
  by (simp add: fits_index_def fits_double_def abs_less_iff)

lemma fits_double_range: "fits_index h \<Longrightarrow> 5 \<le> i \<Longrightarrow> i \<le> h + 4 \<Longrightarrow> fits_double i"
  by (simp add: fits_index_def fits_double_def abs_less_iff)

lemma fits_index_half: "fits_index (N div 2) = (- (2 ^ 64) \<le> N \<and> N < 2 ^ 64)"
  by (simp add: fits_index_def) presburger

lemma comprehension_total:
  "\<forall>i \<in> set is. f i = Inr (h i) \<Longrightarrow> comprehension f is = Inr (map h is)"
  by (induction "is") simp_all

lemma comprehension_error:
  "comprehension f is = Inl e \<Longrightarrow> \<exists>i \<in> set is. f i = Inl e"
  by (induction "is") (auto split: sum.splits)

lemma spiral_arm_a_value:
  "fits_double i \<Longrightarrow> fits_double (N div 2) \<Longrightarrow> N div 2 \<noteq> 0 \<Longrightarrow>
   spiral_arm_a M N i = Inr (double_point_A M (N div 2) i)"
  by (simp add: spiral_arm_a_def py_float_def py_truediv_def double_point_A_def
        double_angle_def spiral_x_def spiral_y_def double_sx_def double_sy_def)

lemma spiral_arm_b_value:
  "fits_double i \<Longrightarrow> fits_double (N div 2) \<Longrightarrow> N div 2 \<noteq> 0 \<Longrightarrow>
   spiral_arm_b M N i = Inr (double_point_B M (N div 2) i)"
  by (simp add: spiral_arm_b_def py_float_def py_truediv_def double_point_B_def
        double_angle_def spiral_x_def spiral_y_def double_sx_def double_sy_def)

lemma spiral_arm_a_error:
  "N div 2 \<noteq> 0 \<Longrightarrow> spiral_arm_a M N i = Inl e \<Longrightarrow> e = OverflowError"
  by (auto simp: spiral_arm_a_def py_float_def py_truediv_def split: if_splits)

lemma spiral_arm_b_error:
  "N div 2 \<noteq> 0 \<Longrightarrow> spiral_arm_b M N i = Inl e \<Longrightarrow> e = OverflowError"
  by (auto simp: spiral_arm_b_def py_float_def py_truediv_def split: if_splits)

lemma spiral_range: "i \<in> set (py_range 5 (5 + h)) \<Longrightarrow> 5 \<le> i \<and> i \<le> h + 4"
  by (auto simp: py_range_def)

lemma spiral_arm_a_comprehension:
  assumes "fits_index (N div 2)"
  shows "comprehension (spiral_arm_a M N) (py_range 5 (5 + N div 2)) =
         Inr (double_arm_A M (N div 2))"
proof -
  have "comprehension (spiral_arm_a M N) (py_range 5 (5 + N div 2)) =
        Inr (map (double_point_A M (N div 2)) (py_range 5 (5 + N div 2)))"
  proof (rule comprehension_total, rule ballI)
    fix i
    assume "i \<in> set (py_range 5 (5 + N div 2))"
    then have i: "5 \<le> i" "i \<le> N div 2 + 4"
      using spiral_range by blast+
    then have "N div 2 \<noteq> 0" by simp
    moreover have "fits_double i"
      using assms i by (rule fits_double_range)
    moreover have "fits_double (N div 2)"
      using assms by (rule fits_double_index)
    ultimately show "spiral_arm_a M N i = Inr (double_point_A M (N div 2) i)"
      by (simp add: spiral_arm_a_value)
  qed
  then show ?thesis
    by (simp add: double_arm_A_def py_range_def)
qed

lemma spiral_arm_b_comprehension:
  assumes "fits_index (N div 2)"
  shows "comprehension (spiral_arm_b M N) (py_range 5 (5 + N div 2)) =
         Inr (double_arm_B M (N div 2))"
proof -
  have "comprehension (spiral_arm_b M N) (py_range 5 (5 + N div 2)) =
        Inr (map (double_point_B M (N div 2)) (py_range 5 (5 + N div 2)))"
  proof (rule comprehension_total, rule ballI)
    fix i
    assume "i \<in> set (py_range 5 (5 + N div 2))"
    then have i: "5 \<le> i" "i \<le> N div 2 + 4"
      using spiral_range by blast+
    then have "N div 2 \<noteq> 0" by simp
    moreover have "fits_double i"
      using assms i by (rule fits_double_range)
    moreover have "fits_double (N div 2)"
      using assms by (rule fits_double_index)
    ultimately show "spiral_arm_b M N i = Inr (double_point_B M (N div 2) i)"
      by (simp add: spiral_arm_b_value)
  qed
  then show ?thesis
    by (simp add: double_arm_B_def py_range_def)
qed

lemma spiral_arm_a_overflow:
  assumes "\<not> fits_index (N div 2)" and "comprehension (spiral_arm_a M N) is = Inl e"
  shows "e = OverflowError"
proof -
  have "N div 2 \<noteq> 0"
    using assms(1) by (auto simp: fits_index_def)
  then show ?thesis
    using comprehension_error [OF assms(2)] spiral_arm_a_error by blast
qed

lemma spiral_arm_b_overflow:
  assumes "\<not> fits_index (N div 2)" and "comprehension (spiral_arm_b M N) is = Inl e"
  shows "e = OverflowError"
proof -
  have "N div 2 \<noteq> 0"
    using assms(1) by (auto simp: fits_index_def)
  then show ?thesis
    using comprehension_error [OF assms(2)] spiral_arm_b_error by blast
qed

lemma spiral_fits:
  "fits_index (N div 2) \<Longrightarrow> spiral M N g = (Inr (double_spiral M N), g)"
  by (simp add: spiral_def spiral_arm_a_comprehension spiral_arm_b_comprehension
        double_spiral_def py_list_mul_def Let_def)

lemma spiral_overflow:
  assumes "\<not> fits_index (N div 2)"
  shows "spiral M N g = (Inl OverflowError, g)"
  using assms
  by (auto simp: spiral_def py_list_mul_def Let_def split: sum.splits
        dest: spiral_arm_a_overflow spiral_arm_b_overflow)

lemma spiral_eq:
  "spiral M N g =
     (if fits_index (N div 2) then Inr (double_spiral M N) else Inl OverflowError, g)"
  by (simp add: spiral_fits spiral_overflow)

lemma length_double_arm_A: "length (double_arm_A M half) = nat half"
  by (simp add: double_arm_A_def)

lemma length_double_arm_B: "length (double_arm_B M half) = nat half"
  by (simp add: double_arm_B_def)

lemma nth_double_arm_A:
  assumes "k < nat half"
  shows "double_arm_A M half ! k = double_point_A M half (5 + int k)"
  using assms by (simp add: double_arm_A_def)

lemma nth_double_arm_B:
  assumes "k < nat half"
  shows "double_arm_B M half ! k = double_point_B M half (5 + int k)"
  using assms by (simp add: double_arm_B_def)

lemma spiral_shape_double: "0 \<le> N \<Longrightarrow> spiral_shape M N (double_spiral M N)"
  by (simp add: spiral_shape_def double_spiral_def Let_def length_double_arm_A
        length_double_arm_B nth_append nth_double_arm_A nth_double_arm_B)

lemma spiral_labels_10: "graph_y (double_spiral M 10) = [0, 0, 0, 0, 0, 1, 1, 1, 1, 1]"
  by (simp add: double_spiral_def eval_nat_numeral)

lemma spiral_labels_11: "graph_y (double_spiral M 11) = [0, 0, 0, 0, 0, 1, 1, 1, 1, 1]"
  by (simp add: double_spiral_def eval_nat_numeral)

lemma spiral_length_X: "length (graph_X (double_spiral M N)) = 2 * nat (N div 2)"
  by (simp add: double_spiral_def Let_def length_double_arm_A length_double_arm_B)

lemma double_spiral_nonpos: "N div 2 \<le> 0 \<Longrightarrow> double_spiral M N = empty_graph N"
  by (simp add: double_spiral_def empty_graph_def double_arm_A_def double_arm_B_def)

section \<open>The claims\<close>

text \<open>
  C1. For every \<open>N \<ge> 0\<close> and a random source whose values are in \<open>[0, 1)\<close>, each of
  simple, diag, split, xor and circle returns a dataset with exactly \<open>N\<close> points and
  exactly \<open>N\<close> labels, every label 0 or 1 and both coordinates of every point in
  \<open>[0, 1)\<close>; and \<open>make_pts(N)\<close> returns a list of length exactly \<open>N\<close>.
\<close>

theorem generators_unit_dataset:
  assumes "0 \<le> N" and "unit_rng g"
  shows "returns (simple N g) (unit_dataset N) \<and>
         returns (diag N g) (unit_dataset N) \<and>
         returns (split N g) (unit_dataset N) \<and>
         returns (xor_dataset N g) (unit_dataset N) \<and>
         returns (circle N g) (unit_dataset N) \<and>
         int (length (fst (make_pts N g))) = N"
  using assms
  by (simp add: simple_eq diag_eq split_eq xor_eq circle_eq returns_Inr
        unit_dataset_rerun make_pts_length)

theorem generators_unit_dataset_witness:
  "0 \<le> (3::int) \<and> unit_rng sample_rng \<and>
   fst (simple 3 sample_rng) =
     Inr \<lparr>graph_N = 3, graph_X = [(0.3, 0), (0.7, 0.4), (0.1, 0.8)], graph_y = [1, 0, 1]\<rparr> \<and>
   returns (simple 3 sample_rng) (unit_dataset 3) \<and>
   returns (diag 3 sample_rng) (unit_dataset 3) \<and>
   returns (split 3 sample_rng) (unit_dataset 3) \<and>
   returns (xor_dataset 3 sample_rng) (unit_dataset 3) \<and>
   returns (circle 3 sample_rng) (unit_dataset 3) \<and>
   int (length (fst (make_pts 3 sample_rng))) = 3"
proof -
  have N: "0 \<le> (3::int)" by simp
  have out: "fst (simple 3 sample_rng) =
     Inr \<lparr>graph_N = 3, graph_X = [(0.3, 0), (0.7, 0.4), (0.1, 0.8)], graph_y = [1, 0, 1]\<rparr>"
    by (simp add: simple_eq make_pts_sample rerun_def spec_label_def spec_simple_def)
  show ?thesis
    using generators_unit_dataset [OF N sample_rng_unit] N sample_rng_unit out by simp
qed

text \<open>
  C2, as amended. For each of simple, diag, split, xor and circle, whatever \<open>N\<close> and the
  random source, the label at every index of the returned dataset is 1 exactly when the
  rule holds of the point at that index, and 0 exactly when it does not, and running the
  rule again on the returned points gives the returned labels. The rules of simple, diag
  and xor are those of the table. The rule of split compares \<open>x1\<close> with the doubles nearest
  to 0.2 and 0.8, and the rule of circle compares with the double nearest to 0.1 the sum
  \<open>(x1 - 0.5) * (x1 - 0.5) + (x2 - 0.5) * (x2 - 0.5)\<close> in double arithmetic.
\<close>

theorem labels_follow_rules:
  "returns (simple N g) (labelled_by spec_simple) \<and>
   returns (diag N g) (labelled_by spec_diag) \<and>
   returns (split N g) (labelled_by double_split) \<and>
   returns (xor_dataset N g) (labelled_by spec_xor) \<and>
   returns (circle N g) (labelled_by double_circle)"
  by (simp add: simple_eq diag_eq split_eq xor_eq circle_eq returns_Inr labelled_by_rerun)

theorem labels_follow_rules_witness:
  "returns (split 4 boundary_rng) (labelled_by double_split) \<and>
   fst (split 4 boundary_rng) =
     Inr \<lparr>graph_N = 4,
          graph_X = [(1 / 2, 1 / 2),
                     (3602879701896397 / 2 ^ 54, 3 / 4),
                     (7205759403792794 / 2 ^ 53, 1 / 4),
                     (1792424227437135 / 2 ^ 53, 3630391867294551 / 2 ^ 53)],
          graph_y = [0, 0, 0, 1]\<rparr> \<and>
   \<not> double_split (7205759403792794 / 2 ^ 53, 1 / 4) \<and>
   double_split (1792424227437135 / 2 ^ 53, 3630391867294551 / 2 ^ 53)"
  using labels_follow_rules [of 4 boundary_rng]
  by (simp add: split_eq make_pts_boundary rerun_def spec_label_def double_split_def
        float_literal_fifth float_literal_four_fifths)

text \<open>
  With the predicates of the table over the real numbers the labels of split and circle
  do not follow: \<open>split\<close> gives label 0 to the point whose \<open>x1\<close> is the double 0.8, which
  is above 0.8, and \<open>circle\<close> gives label 0 to a point whose sum of squares is above 0.1
  and is rounded to the double 0.1.
\<close>

theorem labels_follow_table_counterexample:
  "\<not> returns (split 4 boundary_rng) (labelled_by spec_split) \<and>
   \<not> returns (circle 4 boundary_rng) (labelled_by spec_circle)"
proof -
  have "rerun spec_split (fst (make_pts 4 boundary_rng)) \<noteq>
        rerun double_split (fst (make_pts 4 boundary_rng))"
    by (simp add: make_pts_boundary rerun_def spec_label_def spec_split_def double_split_def
          float_literal_fifth float_literal_four_fifths)
  then have s: "\<not> returns (split 4 boundary_rng) (labelled_by spec_split)"
    by (simp add: split_eq returns_Inr labelled_by_def)
  have p: "spec_circle (1792424227437135 / 2 ^ 53, 3630391867294551 / 2 ^ 53)"
    by (simp add: spec_circle_def power2_eq_square)
  have len: "(3::nat) < length (fst (make_pts 4 boundary_rng))"
    by (simp add: make_pts_boundary)
  have pt: "fst (make_pts 4 boundary_rng) ! 3 =
      (1792424227437135 / 2 ^ 53, 3630391867294551 / 2 ^ 53)"
    by (simp add: make_pts_boundary)
  have "\<not> double_circle (1792424227437135 / 2 ^ 53, 3630391867294551 / 2 ^ 53)"
    by (simp only: double_circle_def double_circle_sum_point)
  then have "rerun double_circle (fst (make_pts 4 boundary_rng)) ! 3 = 0"
    by (simp only: nth_rerun [OF len] pt spec_label_def if_False)
  with len pt have c: "\<not> returns (circle 4 boundary_rng) (labelled_by spec_circle)"
    using p by (auto simp: circle_eq returns_Inr labelled_by_def)
  show ?thesis
    using s c by simp
qed

text \<open>
  C3, as amended. For every \<open>N\<close> with \<open>0 \<le> N < 2\<^sup>6\<^sup>4\<close>, with \<open>half = N // 2\<close>, \<open>spiral(N)\<close>
  returns \<open>2 * half\<close> points: the first \<open>half\<close> are \<open>(sx(t) + 0.5, sy(t) + 0.5)\<close> and the next
  \<open>half\<close> are \<open>(sy(-t) + 0.5, sx(-t) + 0.5)\<close> for \<open>i\<close> from 5 up to \<open>5 + half\<close>, where \<open>t\<close> is
  \<open>10.0 * (float(i) / half)\<close>, \<open>-t\<close> is \<open>-10.0 * (float(i) / half)\<close>, \<open>sx(t) = t * cos(t) / 20\<close>
  and \<open>sy(t) = t * sin(t) / 20\<close>, every operation in double arithmetic and cos and sin
  those of the platform; the labels are \<open>half\<close> zeros followed by \<open>half\<close> ones. For \<open>N = 10\<close>
  and for \<open>N = 11\<close> there are 10 points and the labels are five zeros followed by five
  ones.
\<close>

theorem spiral_construction:
  "(0 \<le> N \<and> N < 2 ^ 64 \<longrightarrow> returns (spiral M N g) (spiral_shape M N)) \<and>
   returns (spiral M 10 g)
     (\<lambda>G. length (graph_X G) = 10 \<and> graph_y G = [0, 0, 0, 0, 0, 1, 1, 1, 1, 1]) \<and>
   returns (spiral M 11 g)
     (\<lambda>G. length (graph_X G) = 10 \<and> graph_y G = [0, 0, 0, 0, 0, 1, 1, 1, 1, 1])"
proof -
  have "returns (spiral M N g) (spiral_shape M N)" if "0 \<le> N" and "N < 2 ^ 64"
    using that by (simp add: spiral_eq fits_index_half returns_Inr spiral_shape_double)
  moreover have "returns (spiral M 10 g)
      (\<lambda>G. length (graph_X G) = 10 \<and> graph_y G = [0, 0, 0, 0, 0, 1, 1, 1, 1, 1])"
    by (simp add: spiral_eq fits_index_def returns_Inr spiral_labels_10 spiral_length_X)
  moreover have "returns (spiral M 11 g)
      (\<lambda>G. length (graph_X G) = 10 \<and> graph_y G = [0, 0, 0, 0, 0, 1, 1, 1, 1, 1])"
    by (simp add: spiral_eq fits_index_def returns_Inr spiral_labels_11 spiral_length_X)
  ultimately show ?thesis by blast
qed

theorem spiral_construction_witness:
  "0 \<le> (10::int) \<and> (10::int) < 2 ^ 64 \<and>
   returns (spiral rounded_math 10 sample_rng) (spiral_shape rounded_math 10) \<and>
   spiral rounded_math 10 sample_rng = (Inr (double_spiral rounded_math 10), sample_rng) \<and>
   length (graph_X (double_spiral rounded_math 10)) = 10 \<and>
   graph_y (double_spiral rounded_math 10) = [0, 0, 0, 0, 0, 1, 1, 1, 1, 1]"
  using spiral_construction [of 10 rounded_math sample_rng]
  by (simp add: spiral_eq fits_index_def spiral_labels_10 spiral_length_X)

text \<open>
  \<open>spiral\<close> does not return for every \<open>N \<ge> 0\<close>: at \<open>N = 2\<^sup>1\<^sup>0\<^sup>2\<^sup>5\<close> the division of \<open>float(5)\<close>
  by \<open>N // 2\<close> raises \<open>OverflowError\<close>. And the angle is not \<open>10 i / half\<close>: at \<open>N = 6\<close> and
  \<open>i = 7\<close> the source computes the double \<open>23.333333333333336\<close>.
\<close>

theorem spiral_construction_counterexample:
  "py_float 5 = Inr 5 \<and>
   py_truediv 5 (2 ^ 1025 div 2) = Inl OverflowError \<and>
   fst (spiral rounded_math (2 ^ 1025) sample_rng) = Inl OverflowError \<and>
   fmul 10 (double_angle (6 div 2) 7) = 3283874728290987 / 2 ^ 47 \<and>
   (3283874728290987 / 2 ^ 47 :: real) \<noteq> 10 * 7 / 3"
proof -
  have "round_double 5 = 5"
    by (subst round_double_eval [where e = 2])
       (simp_all add: round_half_even_def power_int_minus_divide)
  then have "py_float 5 = Inr 5"
    by (simp add: py_float_def fits_double_def)
  moreover have "py_truediv 5 (2 ^ 1025 div 2) = Inl OverflowError"
    by (simp add: py_truediv_def fits_double_def)
  moreover have "fst (spiral rounded_math (2 ^ 1025) sample_rng) = Inl OverflowError"
    by (simp add: spiral_eq fits_index_def)
  moreover have "double_angle (6 div 2) 7 = fdiv 7 3"
    by (simp add: double_angle_def round_double_7 round_double_3)
  then have "fmul 10 (double_angle (6 div 2) 7) = 3283874728290987 / 2 ^ 47"
    by (simp only: fdiv_7_3 fmul_10_angle)
  moreover have "(3283874728290987 / 2 ^ 47 :: real) \<noteq> 10 * 7 / 3"
    by simp
  ultimately show ?thesis by simp
qed

text \<open>
  C4, as amended. Every dataset returned by any of the six generators has as many
  points as labels. For \<open>N \<ge> 0\<close> this common length is the stored count \<open>N\<close> for simple,
  diag, split, xor and circle; for a dataset that spiral returns it is \<open>2 * (N // 2)\<close>
  while the stored count is \<open>N\<close>, so for odd \<open>N \<ge> 0\<close> the stored count of the spiral is its
  size plus one.
\<close>

theorem dataset_size_and_count:
  "returns (simple N g) lengths_agree \<and>
   returns (diag N g) lengths_agree \<and>
   returns (split N g) lengths_agree \<and>
   returns (xor_dataset N g) lengths_agree \<and>
   returns (circle N g) lengths_agree \<and>
   returned (spiral M N g) lengths_agree \<and>
   (0 \<le> N \<longrightarrow>
      returns (simple N g) count_is_size \<and>
      returns (diag N g) count_is_size \<and>
      returns (split N g) count_is_size \<and>
      returns (xor_dataset N g) count_is_size \<and>
      returns (circle N g) count_is_size \<and>
      returned (spiral M N g) (spiral_size N) \<and>
      (odd N \<longrightarrow> returned (spiral M N g) (\<lambda>G. graph_N G = int (length (graph_X G)) + 1)))"
proof -
  have five: "lengths_agree \<lparr>graph_N = N, graph_X = X, graph_y = rerun pred X\<rparr>" for pred X
    by (simp add: lengths_agree_def length_rerun)
  have six: "lengths_agree (double_spiral M N)"
    by (simp add: lengths_agree_def double_spiral_def Let_def length_double_arm_A
          length_double_arm_B)
  have count: "0 \<le> N \<Longrightarrow>
      count_is_size \<lparr>graph_N = N, graph_X = fst (make_pts N g),
                      graph_y = rerun pred (fst (make_pts N g))\<rparr>" for pred
    by (simp add: count_is_size_def length_rerun make_pts_length)
  have sp: "0 \<le> N \<Longrightarrow> spiral_size N (double_spiral M N)"
    by (simp add: spiral_size_def double_spiral_def Let_def length_double_arm_A
          length_double_arm_B)
  have odd: "0 \<le> N \<Longrightarrow> odd N \<Longrightarrow>
      graph_N (double_spiral M N) = int (length (graph_X (double_spiral M N))) + 1"
    by (simp add: double_spiral_def Let_def length_double_arm_A length_double_arm_B)
  show ?thesis
    by (simp add: simple_eq diag_eq split_eq xor_eq circle_eq spiral_eq returns_Inr
          returned_Inr returned_Inl five six count sp odd)
qed

theorem dataset_size_and_count_witness:
  "0 \<le> (11::int) \<and> odd (11::int) \<and>
   returns (simple 11 sample_rng) count_is_size \<and>
   returns (spiral rounded_math 11 sample_rng) (spiral_size 11) \<and>
   returns (spiral rounded_math 11 sample_rng)
     (\<lambda>G. graph_N G = 11 \<and> length (graph_X G) = 10 \<and> length (graph_y G) = 10)"
  using dataset_size_and_count [of 11 sample_rng rounded_math]
  by (simp add: spiral_eq fits_index_def returns_Inr returned_Inr spiral_size_def)

text \<open>
  The count field is not the size for a negative \<open>N\<close>: \<open>simple(-1)\<close> returns a graph with
  no points whose count is \<open>-1\<close>.
\<close>

theorem count_is_size_counterexample:
  "\<not> returns (simple (- 1) sample_rng) count_is_size"
  by (simp add: simple_eq returns_Inr make_pts_nonpos count_is_size_def)

text \<open>
  C5. The registry binds exactly the six names Simple, Diag, Split, Xor, Circle and
  Spiral, each to its generator; a lookup of any other name, such as Unknown, raises
  \<open>KeyError\<close> and returns no entry.
\<close>

theorem registry_lookup:
  "dom (datasets M) = {''Simple'', ''Diag'', ''Split'', ''Xor'', ''Circle'', ''Spiral''} \<and>
   datasets M ''Simple'' = Some simple \<and>
   datasets M ''Diag'' = Some diag \<and>
   datasets M ''Split'' = Some split \<and>
   datasets M ''Xor'' = Some xor_dataset \<and>
   datasets M ''Circle'' = Some circle \<and>
   datasets M ''Spiral'' = Some (spiral M) \<and>
   (name \<notin> {''Simple'', ''Diag'', ''Split'', ''Xor'', ''Circle'', ''Spiral''} \<longrightarrow>
      py_getitem (datasets M) name = Inl KeyError) \<and>
   py_getitem (datasets M) ''Unknown'' = Inl KeyError"
  by (auto simp: datasets_def py_getitem_def)

theorem registry_lookup_witness:
  "''Unknown'' \<notin> {''Simple'', ''Diag'', ''Split'', ''Xor'', ''Circle'', ''Spiral''} \<and>
   py_getitem (datasets rounded_math) ''Unknown'' = Inl KeyError \<and>
   py_getitem (datasets rounded_math) ''Spiral'' = Inr (spiral rounded_math)"
  using registry_lookup [of rounded_math "''Unknown''"] by (simp add: py_getitem_def)

text \<open>
  C6. For \<open>N = 0\<close> each of the six generators returns a dataset with no points and no
  labels, and leaves the random source as it was; for spiral \<open>N // 2 = 0\<close> and both arms
  are empty.
\<close>

theorem zero_points:
  "simple 0 g = (Inr (empty_graph 0), g) \<and>
   diag 0 g = (Inr (empty_graph 0), g) \<and>
   split 0 g = (Inr (empty_graph 0), g) \<and>
   xor_dataset 0 g = (Inr (empty_graph 0), g) \<and>
   circle 0 g = (Inr (empty_graph 0), g) \<and>
   spiral M 0 g = (Inr (empty_graph 0), g) \<and>
   graph_X (empty_graph 0) = [] \<and> graph_y (empty_graph 0) = [] \<and>
   (0::int) div 2 = 0 \<and>
   comprehension (spiral_arm_a M 0) (py_range (5 + 0) (5 + 0 div 2)) = Inr [] \<and>
   comprehension (spiral_arm_b M 0) (py_range (5 + 0) (5 + 0 div 2)) = Inr []"
  by (simp add: simple_eq diag_eq split_eq xor_eq circle_eq spiral_eq fits_index_def
        make_pts_nonpos rerun_Nil double_spiral_nonpos py_range_empty)
     (simp add: empty_graph_def)

text \<open>
  C7. \<open>spiral\<close> is a function of \<open>N\<close> alone: its result is the same from every state of
  the random source, and it leaves that state as it was.
\<close>

theorem spiral_deterministic:
  "fst (spiral M N g1) = fst (spiral M N g2) \<and> snd (spiral M N g1) = g1"
  by (simp add: spiral_eq)

text \<open>
  C8, as amended. For every negative \<open>N\<close> each of simple, diag, split, xor and circle
  returns normally, with a graph whose points and labels are empty and whose count field
  is \<open>N\<close>. So does spiral for \<open>-2\<^sup>6\<^sup>4 \<le> N < 0\<close>: \<open>N // 2\<close> is negative, and both arm ranges
  and both label replications are empty. For \<open>N < -2\<^sup>6\<^sup>4\<close> the arm ranges are empty and
  the replication \<open>[0] * (N // 2)\<close> raises \<open>OverflowError\<close>.
\<close>

theorem negative_count:
  assumes "N < 0"
  shows "simple N g = (Inr (empty_graph N), g) \<and>
         diag N g = (Inr (empty_graph N), g) \<and>
         split N g = (Inr (empty_graph N), g) \<and>
         xor_dataset N g = (Inr (empty_graph N), g) \<and>
         circle N g = (Inr (empty_graph N), g) \<and>
         spiral M N g =
           (if - (2 ^ 64) \<le> N then Inr (empty_graph N) else Inl OverflowError, g) \<and>
         graph_N (empty_graph N) = N \<and>
         graph_X (empty_graph N) = [] \<and> graph_y (empty_graph N) = [] \<and>
         N div 2 < 0 \<and>
         py_range 0 N = [] \<and>
         py_range (5 + 0) (5 + N div 2) = [] \<and>
         py_list_mul (0::int) (N div 2) =
           (if - (2 ^ 64) \<le> N then Inr [] else Inl OverflowError) \<and>
         py_list_mul (1::int) (N div 2) =
           (if - (2 ^ 64) \<le> N then Inr [] else Inl OverflowError)"
proof -
  have neg: "N \<le> 0" "N div 2 \<le> 0" "N div 2 < 0"
    using assms by simp_all
  have fits: "fits_index (N div 2) = (- (2 ^ 64) \<le> N)"
    using assms by (simp add: fits_index_half)
  have five: "simple N g = (Inr (empty_graph N), g) \<and>
      diag N g = (Inr (empty_graph N), g) \<and>
      split N g = (Inr (empty_graph N), g) \<and>
      xor_dataset N g = (Inr (empty_graph N), g) \<and>
      circle N g = (Inr (empty_graph N), g)"
    using neg
    by (simp add: simple_eq diag_eq split_eq xor_eq circle_eq make_pts_nonpos rerun_Nil
          empty_graph_def)
  have sp: "spiral M N g =
      (if - (2 ^ 64) \<le> N then Inr (empty_graph N) else Inl OverflowError, g)"
    using neg by (simp add: spiral_eq fits double_spiral_nonpos)
  have mul: "py_list_mul v (N div 2) =
      (if - (2 ^ 64) \<le> N then Inr [] else Inl OverflowError)" for v :: int
    using neg by (simp add: py_list_mul_def fits)
  have rest: "graph_N (empty_graph N) = N \<and> graph_X (empty_graph N) = [] \<and>
      graph_y (empty_graph N) = [] \<and> py_range 0 N = [] \<and>
      py_range (5 + 0) (5 + N div 2) = []"
    using neg by (simp add: empty_graph_def py_range_empty)
  show ?thesis
    using five sp mul rest neg(3) by simp
qed

theorem negative_count_witness:
  "(- 3::int) < 0 \<and>
   simple (- 3) sample_rng = (Inr \<lparr>graph_N = - 3, graph_X = [], graph_y = []\<rparr>, sample_rng) \<and>
   spiral rounded_math (- 3) sample_rng =
     (Inr \<lparr>graph_N = - 3, graph_X = [], graph_y = []\<rparr>, sample_rng) \<and>
   (- 3::int) div 2 = - 2 \<and> py_range (5 + 0) (5 + (- 3) div 2) = []"
proof -
  have N: "(- 3::int) < 0" by simp
  show ?thesis
    using negative_count [OF N, of sample_rng rounded_math] by (simp add: empty_graph_def)
qed

text \<open>
  \<open>spiral\<close> does not return for every negative \<open>N\<close>: at \<open>N = -2\<^sup>6\<^sup>4 - 1\<close> the count
  \<open>N // 2 = -2\<^sup>6\<^sup>3 - 1\<close> fits no index and \<open>[0] * (N // 2)\<close> raises \<open>OverflowError\<close>.
\<close>

theorem negative_count_counterexample:
  "(- (2 ^ 64) - 1 :: int) < 0 \<and>
   (- (2 ^ 64) - 1 :: int) div 2 = - (2 ^ 63) - 1 \<and>
   py_list_mul (0::int) ((- (2 ^ 64) - 1) div 2) = Inl OverflowError \<and>
   fst (spiral rounded_math (- (2 ^ 64) - 1) sample_rng) = Inl OverflowError"
  by (simp add: spiral_eq fits_index_def py_list_mul_def)

text \<open>
  C9. For \<open>N = 0\<close> and \<open>N = 1\<close> the range of both comprehensions of \<open>spiral\<close> is empty,
  so the division by \<open>N // 2 = 0\<close>, which would raise \<open>ZeroDivisionError\<close> at any float, is
  never evaluated, and the call returns the empty dataset. The element expression would
  raise at every \<open>i\<close>: \<open>ZeroDivisionError\<close>, or \<open>OverflowError\<close> from \<open>float(i)\<close> at an \<open>i\<close> too
  large for a float.
\<close>

theorem spiral_division_unreachable:
  "spiral M 0 g = (Inr (empty_graph 0), g) \<and>
   spiral M 1 g = (Inr (empty_graph 1), g) \<and>
   py_range (5 + 0) (5 + 0 div 2) = [] \<and>
   py_range (5 + 0) (5 + 1 div 2) = [] \<and>
   py_truediv x (0 div 2) = Inl ZeroDivisionError \<and>
   py_truediv x (1 div 2) = Inl ZeroDivisionError \<and>
   spiral_arm_a M 0 i = Inl (if fits_double i then ZeroDivisionError else OverflowError) \<and>
   spiral_arm_a M 1 i = Inl (if fits_double i then ZeroDivisionError else OverflowError) \<and>
   spiral_arm_b M 0 i = Inl (if fits_double i then ZeroDivisionError else OverflowError) \<and>
   spiral_arm_b M 1 i = Inl (if fits_double i then ZeroDivisionError else OverflowError) \<and>
   spiral_arm_a M 0 5 = Inl ZeroDivisionError \<and>
   spiral_arm_a M 1 5 = Inl ZeroDivisionError"
  by (simp add: spiral_eq fits_index_def double_spiral_nonpos py_range_empty py_truediv_def
        py_float_def spiral_arm_a_def spiral_arm_b_def fits_double_def)

text \<open>
  C10. The comparisons of the five rules are strict: in the dataset any of them returns,
  a point on the boundary of the rule has label 0. The boundaries are \<open>x1 = 0.5\<close> for
  simple, \<open>x1 = x2\<close> for diag, \<open>x1 = 0.2\<close> or \<open>x1 = 0.8\<close> for split, \<open>x1 = 0.5\<close> or
  \<open>x2 = 0.5\<close> for xor, and \<open>(x1 - 0.5)\<^sup>2 + (x2 - 0.5)\<^sup>2 = 0.1\<close> for circle, where the
  coordinates are doubles, \<open>0.2\<close>, \<open>0.8\<close> and \<open>0.1\<close> are the doubles the source compares
  with, and the sum of squares is the double the source computes (no double is on these
  boundaries read over the real numbers).
\<close>

theorem boundary_label_zero:
  "returns (simple N g) (boundary_zero (\<lambda>(x1, x2). x1 = 0.5)) \<and>
   returns (diag N g) (boundary_zero (\<lambda>(x1, x2). x1 = x2)) \<and>
   returns (split N g)
     (boundary_zero (\<lambda>(x1, x2). x1 = float_literal 0.2 \<or> x1 = float_literal 0.8)) \<and>
   returns (xor_dataset N g) (boundary_zero (\<lambda>(x1, x2). x1 = 0.5 \<or> x2 = 0.5)) \<and>
   returns (circle N g) (boundary_zero (\<lambda>p. double_circle_sum p = float_literal 0.1))"
proof -
  have "returns (simple N g) (boundary_zero (\<lambda>(x1, x2). x1 = 0.5))"
    unfolding simple_eq returns_Inr
    by (rule boundary_zero_rerun) (auto simp: spec_simple_def)
  moreover have "returns (diag N g) (boundary_zero (\<lambda>(x1, x2). x1 = x2))"
    unfolding diag_eq returns_Inr
    by (rule boundary_zero_rerun) (auto simp: spec_diag_def)
  moreover have "returns (split N g)
      (boundary_zero (\<lambda>(x1, x2). x1 = float_literal 0.2 \<or> x1 = float_literal 0.8))"
    unfolding split_eq returns_Inr
    by (rule boundary_zero_rerun)
       (auto simp: double_split_def float_literal_fifth float_literal_four_fifths)
  moreover have "returns (xor_dataset N g) (boundary_zero (\<lambda>(x1, x2). x1 = 0.5 \<or> x2 = 0.5))"
    unfolding xor_eq returns_Inr
    by (rule boundary_zero_rerun) (auto simp: spec_xor_def)
  moreover have "returns (circle N g)
      (boundary_zero (\<lambda>p. double_circle_sum p = float_literal 0.1))"
    unfolding circle_eq returns_Inr
    by (rule boundary_zero_rerun) (simp add: double_circle_def)
  ultimately show ?thesis by simp
qed

theorem boundary_label_zero_witness:
  "fst (make_pts 4 boundary_rng) =
     [(1 / 2, 1 / 2),
      (3602879701896397 / 2 ^ 54, 3 / 4),
      (7205759403792794 / 2 ^ 53, 1 / 4),
      (1792424227437135 / 2 ^ 53, 3630391867294551 / 2 ^ 53)] \<and>
   float_literal 0.2 = 3602879701896397 / 2 ^ 54 \<and>
   float_literal 0.8 = 7205759403792794 / 2 ^ 53 \<and>
   double_circle_sum (1792424227437135 / 2 ^ 53, 3630391867294551 / 2 ^ 53) =
     float_literal 0.1 \<and>
   returns (simple 4 boundary_rng) (\<lambda>G. graph_y G = [0, 1, 0, 1]) \<and>
   returns (diag 4 boundary_rng) (\<lambda>G. graph_y G = [0, 1, 0, 1]) \<and>
   returns (split 4 boundary_rng) (\<lambda>G. graph_y G = [0, 0, 0, 1]) \<and>
   returns (xor_dataset 4 boundary_rng) (\<lambda>G. graph_y G = [0, 1, 1, 0]) \<and>
   returns (circle 4 boundary_rng) (\<lambda>G. graph_y G ! 0 = 0 \<and> graph_y G ! 3 = 0) \<and>
   returns (circle 4 boundary_rng)
     (boundary_zero (\<lambda>p. double_circle_sum p = float_literal 0.1))"
proof -
  have len: "(3::nat) < length (fst (make_pts 4 boundary_rng))"
    and len0: "(0::nat) < length (fst (make_pts 4 boundary_rng))"
    by (simp_all add: make_pts_boundary)
  have pt: "fst (make_pts 4 boundary_rng) ! 3 =
      (1792424227437135 / 2 ^ 53, 3630391867294551 / 2 ^ 53)"
    by (simp add: make_pts_boundary)
  have on: "double_circle_sum (fst (make_pts 4 boundary_rng) ! 3) = float_literal 0.1"
    by (simp only: pt double_circle_sum_point)
  have bz: "returns (circle 4 boundary_rng)
      (boundary_zero (\<lambda>p. double_circle_sum p = float_literal 0.1))"
    using boundary_label_zero [of 4 boundary_rng] by simp
  then have c3: "rerun double_circle (fst (make_pts 4 boundary_rng)) ! 3 = 0"
    using len on by (simp add: circle_eq returns_Inr boundary_zero_def)
  have "fst (make_pts 4 boundary_rng) ! 0 = (1 / 2, 1 / 2)"
    by (simp add: make_pts_boundary)
  moreover have "double_circle_sum (1 / 2, 1 / 2) = 0"
    by (simp add: double_circle_sum_def fsub_def fmul_def fadd_def round_double_def)
  moreover have "0 < float_literal 0.1"
    by (simp add: float_literal_tenth)
  ultimately have c0: "rerun double_circle (fst (make_pts 4 boundary_rng)) ! 0 = 0"
    by (simp add: nth_rerun [OF len0] spec_label_def double_circle_def)
  have circ: "returns (circle 4 boundary_rng) (\<lambda>G. graph_y G ! 0 = 0 \<and> graph_y G ! 3 = 0)"
    using c0 c3 by (simp add: circle_eq returns_Inr)
  have others: "returns (simple 4 boundary_rng) (\<lambda>G. graph_y G = [0, 1, 0, 1]) \<and>
      returns (diag 4 boundary_rng) (\<lambda>G. graph_y G = [0, 1, 0, 1]) \<and>
      returns (split 4 boundary_rng) (\<lambda>G. graph_y G = [0, 0, 0, 1]) \<and>
      returns (xor_dataset 4 boundary_rng) (\<lambda>G. graph_y G = [0, 1, 1, 0])"
    by (simp add: simple_eq diag_eq split_eq xor_eq returns_Inr make_pts_boundary rerun_def
          spec_label_def spec_simple_def spec_diag_def double_split_def spec_xor_def
          float_literal_fifth float_literal_four_fifths)
  show ?thesis
    using make_pts_boundary float_literal_0_2 float_literal_0_8 double_circle_sum_point
      others circ bz
    by (simp only: simp_thms)
qed

end
